theory Spec2Isabelle
  imports Complex_Main
begin

section \<open>Number values\<close>

text \<open>
  Every value the calculator handles is an ECMAScript Number. The model keeps the three
  non-finite values and the way the operators propagate them (division by zero, the square
  root of a negative number, Infinity - Infinity, Infinity * 0), because the source relies on
  them instead of raising. On finite values the arithmetic is taken exactly, over the reals:
  the rounding of binary64, overflow, underflow and the sign of zero are not modelled. A zero
  divisor counts as +0, which is the zero that non-negative arguments produce. Theorems below
  that speak of equality of finite values are therefore statements of exact arithmetic.
\<close>

datatype number = Fin real | PosInfinity | NegInfinity | NaN


fun num_neg :: "number \<Rightarrow> number" where
  "num_neg (Fin x) = Fin (- x)"
| "num_neg PosInfinity = NegInfinity"
| "num_neg NegInfinity = PosInfinity"
| "num_neg NaN = NaN"

text \<open>\<open>a + b\<close>: opposite infinities give NaN.\<close>

fun num_add :: "number \<Rightarrow> number \<Rightarrow> number" where
  "num_add NaN b = NaN"
| "num_add a NaN = NaN"
| "num_add (Fin x) (Fin y) = Fin (x + y)"
| "num_add PosInfinity NegInfinity = NaN"
| "num_add NegInfinity PosInfinity = NaN"
| "num_add PosInfinity b = PosInfinity"
| "num_add NegInfinity b = NegInfinity"
| "num_add (Fin x) b = b"

text \<open>\<open>a - b\<close> is \<open>a + (-b)\<close>.\<close>

definition num_sub :: "number \<Rightarrow> number \<Rightarrow> number" where
  "num_sub a b = num_add a (num_neg b)"

text \<open>The sign rule for an infinite product or quotient; a zero factor gives NaN.\<close>

definition signed_infinity :: "bool \<Rightarrow> number" where
  "signed_infinity positive = (if positive then PosInfinity else NegInfinity)"

fun num_mul :: "number \<Rightarrow> number \<Rightarrow> number" where
  "num_mul NaN b = NaN"
| "num_mul a NaN = NaN"
| "num_mul (Fin x) (Fin y) = Fin (x * y)"
| "num_mul PosInfinity PosInfinity = PosInfinity"
| "num_mul PosInfinity NegInfinity = NegInfinity"
| "num_mul NegInfinity PosInfinity = NegInfinity"
| "num_mul NegInfinity NegInfinity = PosInfinity"
| "num_mul PosInfinity (Fin y) = (if y = 0 then NaN else signed_infinity (0 < y))"
| "num_mul NegInfinity (Fin y) = (if y = 0 then NaN else signed_infinity (y < 0))"
| "num_mul (Fin x) PosInfinity = (if x = 0 then NaN else signed_infinity (0 < x))"
| "num_mul (Fin x) NegInfinity = (if x = 0 then NaN else signed_infinity (x < 0))"

text \<open>
  \<open>a / b\<close>: a finite value over zero is an infinity of the dividend's sign, \<open>0 / 0\<close> and
  \<open>Infinity / Infinity\<close> are NaN, a finite value over an infinity is zero.
\<close>

fun num_div :: "number \<Rightarrow> number \<Rightarrow> number" where
  "num_div NaN b = NaN"
| "num_div a NaN = NaN"
| "num_div (Fin x) (Fin y) =
     (if y = 0 then (if x = 0 then NaN else signed_infinity (0 < x)) else Fin (x / y))"
| "num_div (Fin x) b = Fin 0"
| "num_div PosInfinity (Fin y) = signed_infinity (0 \<le> y)"
| "num_div NegInfinity (Fin y) = signed_infinity (y < 0)"
| "num_div a b = NaN"

text \<open>\<open>Math.sqrt\<close>: NaN below zero.\<close>

fun Math_sqrt :: "number \<Rightarrow> number" where
  "Math_sqrt (Fin x) = (if x < 0 then NaN else Fin (sqrt x))"
| "Math_sqrt PosInfinity = PosInfinity"
| "Math_sqrt NegInfinity = NaN"
| "Math_sqrt NaN = NaN"

fun Math_abs :: "number \<Rightarrow> number" where
  "Math_abs (Fin x) = Fin \<bar>x\<bar>"
| "Math_abs PosInfinity = PosInfinity"
| "Math_abs NegInfinity = PosInfinity"
| "Math_abs NaN = NaN"

text \<open>\<open>a < b\<close> and \<open>a > b\<close>: false as soon as one side is NaN.\<close>

fun num_lt :: "number \<Rightarrow> number \<Rightarrow> bool" where
  "num_lt NaN b = False"
| "num_lt a NaN = False"
| "num_lt (Fin x) (Fin y) = (x < y)"
| "num_lt a NegInfinity = False"
| "num_lt NegInfinity b = True"
| "num_lt PosInfinity b = False"
| "num_lt (Fin x) PosInfinity = True"

definition num_gt :: "number \<Rightarrow> number \<Rightarrow> bool" where
  "num_gt a b = num_lt b a"

text \<open>
  \<open>Number(x.toFixed(2))\<close>. \<open>toFixed\<close> prints a non-finite value by name and \<open>Number\<close>
  reads it back. For a finite value it takes the magnitude, prints it unchanged from
  \<open>10^21\<close> on, and otherwise picks the integer \<open>n\<close> with \<open>n / 100\<close> closest to it, the
  larger one on a tie; the sign is put back in front.
\<close>

definition round2 :: "real \<Rightarrow> real" where
  "round2 x =
     (if x < 0 then - (real_of_int \<lfloor>100 * (- x) + 1 / 2\<rfloor> / 100)
      else real_of_int \<lfloor>100 * x + 1 / 2\<rfloor> / 100)"

fun toFixed2 :: "number \<Rightarrow> number" where
  "toFixed2 (Fin x) = (if 10 ^ 21 \<le> \<bar>x\<bar> then Fin x else Fin (round2 x))"
| "toFixed2 PosInfinity = PosInfinity"
| "toFixed2 NegInfinity = NegInfinity"
| "toFixed2 NaN = NaN"

section \<open>The result record\<close>

text \<open>\<open>interface ILResult\<close> of \<open>src/index.ts\<close>, the object literal both variants return.\<close>

record ILResult =
  il_percentage :: number
  il_usd :: number
  initial_value_usd :: number
  current_value_usd :: number
  hodl_value_usd :: number
  fee_apr :: number
  net_apr :: number
  recommendation :: string

section \<open>The two variants of calculateImpermanentLoss\<close>

text \<open>
  \<open>calculateImpermanentLoss\<close> of \<open>src/index.ts\<close> (lines 23 to 56): three recommendation
  labels, the fields returned as computed. The function has no \<open>throw\<close> and no early
  return; it yields a record for every argument.
\<close>

definition calculateImpermanentLoss_index ::
  "number \<Rightarrow> number \<Rightarrow> number \<Rightarrow> number \<Rightarrow> number \<Rightarrow> number \<Rightarrow> number \<Rightarrow> ILResult" where
  "calculateImpermanentLoss_index priceRatio initialPrice0 initialPrice1 amount0 amount1
       feesEarned daysHeld =
    (let k = num_mul amount0 amount1;
         newAmount0 = Math_sqrt (num_div k priceRatio);
         newAmount1 = Math_sqrt (num_mul k priceRatio);
         initialValue = num_add (num_mul amount0 initialPrice0) (num_mul amount1 initialPrice1);
         currentValue = num_add (num_mul (num_mul newAmount0 initialPrice0) priceRatio)
                                (num_mul newAmount1 initialPrice1);
         hodlValue = num_add (num_mul (num_mul amount0 initialPrice0) priceRatio)
                             (num_mul amount1 initialPrice1);
         ilUsd = num_sub currentValue hodlValue;
         ilPercentage = num_mul (num_div ilUsd hodlValue) (Fin 100);
         annualFees = num_mul (num_div feesEarned daysHeld) (Fin 365);
         feeApr = num_mul (num_div annualFees initialValue) (Fin 100);
         netApr = num_add feeApr (num_mul (num_div ilPercentage daysHeld) (Fin 365));
         recommendation =
           (if num_lt ilPercentage (Fin (- 5)) \<and> num_lt feeApr (Math_abs ilPercentage)
            then ''Consider exiting - IL exceeds fee earnings''
            else if num_gt netApr (Fin 10)
            then ''Strong position - fees outpace IL''
            else ''Monitor position'')
     in \<lparr> il_percentage = ilPercentage,
          il_usd = ilUsd,
          initial_value_usd = initialValue,
          current_value_usd = num_add currentValue feesEarned,
          hodl_value_usd = hodlValue,
          fee_apr = feeApr,
          net_apr = netApr,
          recommendation = recommendation \<rparr>)"

text \<open>
  \<open>calculateImpermanentLoss\<close> of \<open>src/src/index.ts\<close> (lines 52 to 102): the same locals,
  five recommendation labels, every numeric field passed through \<open>Number(_.toFixed(2))\<close>.
\<close>

definition calculateImpermanentLoss_src ::
  "number \<Rightarrow> number \<Rightarrow> number \<Rightarrow> number \<Rightarrow> number \<Rightarrow> number \<Rightarrow> number \<Rightarrow> ILResult" where
  "calculateImpermanentLoss_src priceRatio initialPrice0 initialPrice1 amount0 amount1
       feesEarned daysHeld =
    (let k = num_mul amount0 amount1;
         newAmount0 = Math_sqrt (num_div k priceRatio);
         newAmount1 = Math_sqrt (num_mul k priceRatio);
         initialValue = num_add (num_mul amount0 initialPrice0) (num_mul amount1 initialPrice1);
         currentValue = num_add (num_mul (num_mul newAmount0 initialPrice0) priceRatio)
                                (num_mul newAmount1 initialPrice1);
         hodlValue = num_add (num_mul (num_mul amount0 initialPrice0) priceRatio)
                             (num_mul amount1 initialPrice1);
         ilUsd = num_sub currentValue hodlValue;
         ilPercentage = num_mul (num_div ilUsd hodlValue) (Fin 100);
         annualFees = num_mul (num_div feesEarned daysHeld) (Fin 365);
         feeApr = num_mul (num_div annualFees initialValue) (Fin 100);
         netApr = num_add feeApr (num_mul (num_div ilPercentage daysHeld) (Fin 365));
         recommendation =
           (if num_lt ilPercentage (Fin (- 5)) \<and> num_lt feeApr (Math_abs ilPercentage)
            then ''Consider exiting - IL exceeds fee earnings''
            else if num_gt netApr (Fin 10)
            then ''Strong position - fees outpace IL''
            else if num_gt netApr (Fin 0)
            then ''Profitable position - fees covering IL''
            else if num_lt ilPercentage (Fin (- 10))
            then ''High IL detected - evaluate exit strategy''
            else ''Monitor position'')
     in \<lparr> il_percentage = toFixed2 ilPercentage,
          il_usd = toFixed2 ilUsd,
          initial_value_usd = toFixed2 initialValue,
          current_value_usd = toFixed2 (num_add currentValue feesEarned),
          hodl_value_usd = toFixed2 hodlValue,
          fee_apr = toFixed2 feeApr,
          net_apr = toFixed2 netApr,
          recommendation = recommendation \<rparr>)"

section \<open>The locals of the function body\<close>

text \<open>
  Lines 24 to 37 of \<open>src/index.ts\<close> and lines 62 to 78 of \<open>src/src/index.ts\<close> are the same
  text. Each local constant is given here as a function of the parameters it depends on, to
  have a name for the value computed before the result object is built.
\<close>

definition kProduct :: "number \<Rightarrow> number \<Rightarrow> number" where
  "kProduct amount0 amount1 = num_mul amount0 amount1"

definition newAmount0 :: "number \<Rightarrow> number \<Rightarrow> number \<Rightarrow> number" where
  "newAmount0 priceRatio amount0 amount1 = Math_sqrt (num_div (kProduct amount0 amount1) priceRatio)"

definition newAmount1 :: "number \<Rightarrow> number \<Rightarrow> number \<Rightarrow> number" where
  "newAmount1 priceRatio amount0 amount1 = Math_sqrt (num_mul (kProduct amount0 amount1) priceRatio)"

definition initialValue :: "number \<Rightarrow> number \<Rightarrow> number \<Rightarrow> number \<Rightarrow> number" where
  "initialValue initialPrice0 initialPrice1 amount0 amount1 =
     num_add (num_mul amount0 initialPrice0) (num_mul amount1 initialPrice1)"

definition currentValue :: "number \<Rightarrow> number \<Rightarrow> number \<Rightarrow> number \<Rightarrow> number \<Rightarrow> number" where
  "currentValue priceRatio initialPrice0 initialPrice1 amount0 amount1 =
     num_add (num_mul (num_mul (newAmount0 priceRatio amount0 amount1) initialPrice0) priceRatio)
             (num_mul (newAmount1 priceRatio amount0 amount1) initialPrice1)"

definition hodlValue :: "number \<Rightarrow> number \<Rightarrow> number \<Rightarrow> number \<Rightarrow> number \<Rightarrow> number" where
  "hodlValue priceRatio initialPrice0 initialPrice1 amount0 amount1 =
     num_add (num_mul (num_mul amount0 initialPrice0) priceRatio) (num_mul amount1 initialPrice1)"

definition ilUsd :: "number \<Rightarrow> number \<Rightarrow> number \<Rightarrow> number \<Rightarrow> number \<Rightarrow> number" where
  "ilUsd priceRatio initialPrice0 initialPrice1 amount0 amount1 =
     num_sub (currentValue priceRatio initialPrice0 initialPrice1 amount0 amount1)
             (hodlValue priceRatio initialPrice0 initialPrice1 amount0 amount1)"

definition ilPercentage :: "number \<Rightarrow> number \<Rightarrow> number \<Rightarrow> number \<Rightarrow> number \<Rightarrow> number" where
  "ilPercentage priceRatio initialPrice0 initialPrice1 amount0 amount1 =
     num_mul (num_div (ilUsd priceRatio initialPrice0 initialPrice1 amount0 amount1)
                      (hodlValue priceRatio initialPrice0 initialPrice1 amount0 amount1))
             (Fin 100)"

definition annualFees :: "number \<Rightarrow> number \<Rightarrow> number" where
  "annualFees feesEarned daysHeld = num_mul (num_div feesEarned daysHeld) (Fin 365)"

definition feeApr :: "number \<Rightarrow> number \<Rightarrow> number \<Rightarrow> number \<Rightarrow> number \<Rightarrow> number \<Rightarrow> number" where
  "feeApr initialPrice0 initialPrice1 amount0 amount1 feesEarned daysHeld =
     num_mul (num_div (annualFees feesEarned daysHeld)
                      (initialValue initialPrice0 initialPrice1 amount0 amount1))
             (Fin 100)"

definition netApr ::
  "number \<Rightarrow> number \<Rightarrow> number \<Rightarrow> number \<Rightarrow> number \<Rightarrow> number \<Rightarrow> number \<Rightarrow> number" where
  "netApr priceRatio initialPrice0 initialPrice1 amount0 amount1 feesEarned daysHeld =
     num_add (feeApr initialPrice0 initialPrice1 amount0 amount1 feesEarned daysHeld)
             (num_mul (num_div (ilPercentage priceRatio initialPrice0 initialPrice1 amount0 amount1)
                               daysHeld)
                      (Fin 365))"

section \<open>The specification's side\<close>









text \<open>
  The classifier's rule table: conditions paired with labels, read from the top, the first
  condition that holds giving the label.
\<close>

definition rule_table :: "number \<Rightarrow> number \<Rightarrow> number \<Rightarrow> (bool \<times> string) list" where
  "rule_table il fee net =
     [(num_lt il (Fin (- 5)) \<and> num_lt fee (Math_abs il),
         ''Consider exiting - IL exceeds fee earnings''),
      (num_gt net (Fin 10), ''Strong position - fees outpace IL''),
      (num_gt net (Fin 0), ''Profitable position - fees covering IL''),
      (num_lt il (Fin (- 10)), ''High IL detected - evaluate exit strategy'')]"

fun first_match :: "(bool \<times> string) list \<Rightarrow> string \<Rightarrow> string" where
  "first_match [] dflt = dflt"
| "first_match ((c, l) # rules) dflt = (if c then l else first_match rules dflt)"

definition classify :: "number \<Rightarrow> number \<Rightarrow> number \<Rightarrow> string" where
  "classify il fee net = first_match (rule_table il fee net) ''Monitor position''"

text \<open>The table the variant of \<open>src/index.ts\<close> evaluates: rules 1 and 2 and the default.\<close>

definition classify_short :: "number \<Rightarrow> number \<Rightarrow> number \<Rightarrow> string" where
  "classify_short il fee net = first_match (take 2 (rule_table il fee net)) ''Monitor position''"

section \<open>The result in terms of the locals\<close>

lemma index_result:
  "calculateImpermanentLoss_index r p0 p1 a0 a1 f d =
     \<lparr> il_percentage = ilPercentage r p0 p1 a0 a1,
       il_usd = ilUsd r p0 p1 a0 a1,
       initial_value_usd = initialValue p0 p1 a0 a1,
       current_value_usd = num_add (currentValue r p0 p1 a0 a1) f,
       hodl_value_usd = hodlValue r p0 p1 a0 a1,
       fee_apr = feeApr p0 p1 a0 a1 f d,
       net_apr = netApr r p0 p1 a0 a1 f d,
       recommendation =
         classify_short (ilPercentage r p0 p1 a0 a1) (feeApr p0 p1 a0 a1 f d)
           (netApr r p0 p1 a0 a1 f d) \<rparr>"
  by (simp add: calculateImpermanentLoss_index_def Let_def kProduct_def newAmount0_def
      newAmount1_def initialValue_def currentValue_def hodlValue_def ilUsd_def ilPercentage_def
      annualFees_def feeApr_def netApr_def classify_short_def rule_table_def)

lemma src_result:
  "calculateImpermanentLoss_src r p0 p1 a0 a1 f d =
     \<lparr> il_percentage = toFixed2 (ilPercentage r p0 p1 a0 a1),
       il_usd = toFixed2 (ilUsd r p0 p1 a0 a1),
       initial_value_usd = toFixed2 (initialValue p0 p1 a0 a1),
       current_value_usd = toFixed2 (num_add (currentValue r p0 p1 a0 a1) f),
       hodl_value_usd = toFixed2 (hodlValue r p0 p1 a0 a1),
       fee_apr = toFixed2 (feeApr p0 p1 a0 a1 f d),
       net_apr = toFixed2 (netApr r p0 p1 a0 a1 f d),
       recommendation =
         classify (ilPercentage r p0 p1 a0 a1) (feeApr p0 p1 a0 a1 f d)
           (netApr r p0 p1 a0 a1 f d) \<rparr>"
  by (simp add: calculateImpermanentLoss_src_def Let_def kProduct_def newAmount0_def
      newAmount1_def initialValue_def currentValue_def hodlValue_def ilUsd_def ilPercentage_def
      annualFees_def feeApr_def netApr_def classify_def rule_table_def)

section \<open>Finite arguments\<close>








section \<open>Non-finite values\<close>











section \<open>C1: the step equations\<close>




section \<open>C2: arguments outside the preconditions\<close>




section \<open>Algebra of the step equations\<close>







section \<open>C3: an unchanged price\<close>




section \<open>C4: the sign of the loss\<close>




section \<open>C5: the closed form\<close>




section \<open>C6: the recommendation\<close>

text \<open>
  C6 as stated: both variants pick the label by the five-rule table. The variant of
  \<open>src/index.ts\<close> has rules 1 and 2 only: with every argument 1 and 3650 days the net APR
  is 5, rule 3 of the table applies, and the variant returns the default label.
\<close>

theorem recommendation_index_counterexample:
  "recommendation (calculateImpermanentLoss_index (Fin 1) (Fin 1) (Fin 1) (Fin 1) (Fin 1) (Fin 1)
       (Fin 3650)) = ''Monitor position''
   \<and> netApr (Fin 1) (Fin 1) (Fin 1) (Fin 1) (Fin 1) (Fin 1) (Fin 3650) = Fin 5
   \<and> classify (ilPercentage (Fin 1) (Fin 1) (Fin 1) (Fin 1) (Fin 1))
        (feeApr (Fin 1) (Fin 1) (Fin 1) (Fin 1) (Fin 1) (Fin 3650))
        (netApr (Fin 1) (Fin 1) (Fin 1) (Fin 1) (Fin 1) (Fin 1) (Fin 3650)) =
      ''Profitable position - fees covering IL''
   \<and> recommendation (calculateImpermanentLoss_index (Fin 1) (Fin 1) (Fin 1) (Fin 1) (Fin 1) (Fin 1)
       (Fin 3650)) \<noteq>
      classify (ilPercentage (Fin 1) (Fin 1) (Fin 1) (Fin 1) (Fin 1))
        (feeApr (Fin 1) (Fin 1) (Fin 1) (Fin 1) (Fin 1) (Fin 3650))
        (netApr (Fin 1) (Fin 1) (Fin 1) (Fin 1) (Fin 1) (Fin 1) (Fin 3650))"
  by (simp add: calculateImpermanentLoss_index_def Let_def classify_def rule_table_def netApr_def
      ilPercentage_def ilUsd_def currentValue_def hodlValue_def newAmount0_def newAmount1_def
      kProduct_def feeApr_def annualFees_def initialValue_def num_sub_def num_gt_def)

text \<open>
  C6, amended: for every input, the variant of \<open>src/src/index.ts\<close> returns the label of the
  first matching rule of the five-rule table, read from the top, over the computed
  \<open>ilPercentage\<close>, \<open>feeApr\<close> and \<open>netApr = feeApr + ilPercentage / daysHeld * 365\<close>; the
  variant of \<open>src/index.ts\<close> does the same over rules 1 and 2 and the default. In both, an
  input that matches rule 1 gets rule 1's label, whatever later rule it also matches.
\<close>

theorem recommendation_first_match:
  "recommendation (calculateImpermanentLoss_src r p0 p1 a0 a1 f d) =
      classify (ilPercentage r p0 p1 a0 a1) (feeApr p0 p1 a0 a1 f d)
        (num_add (feeApr p0 p1 a0 a1 f d)
           (num_mul (num_div (ilPercentage r p0 p1 a0 a1) d) (Fin 365)))
   \<and> recommendation (calculateImpermanentLoss_index r p0 p1 a0 a1 f d) =
      classify_short (ilPercentage r p0 p1 a0 a1) (feeApr p0 p1 a0 a1 f d)
        (num_add (feeApr p0 p1 a0 a1 f d)
           (num_mul (num_div (ilPercentage r p0 p1 a0 a1) d) (Fin 365)))
   \<and> (num_lt (ilPercentage r p0 p1 a0 a1) (Fin (- 5))
        \<and> num_lt (feeApr p0 p1 a0 a1 f d) (Math_abs (ilPercentage r p0 p1 a0 a1)) \<longrightarrow>
      recommendation (calculateImpermanentLoss_src r p0 p1 a0 a1 f d) =
        ''Consider exiting - IL exceeds fee earnings''
      \<and> recommendation (calculateImpermanentLoss_index r p0 p1 a0 a1 f d) =
        ''Consider exiting - IL exceeds fee earnings'')"
  by (simp add: index_result src_result netApr_def classify_def classify_short_def rule_table_def)

text \<open>Amounts 1 and 4 at an unchanged price: rules 1 and 4 both match, rule 1 wins.\<close>

theorem recommendation_first_match_witness:
  "num_lt (ilPercentage (Fin 1) (Fin 1) (Fin 1) (Fin 1) (Fin 4)) (Fin (- 5))
   \<and> num_lt (feeApr (Fin 1) (Fin 1) (Fin 1) (Fin 4) (Fin 0) (Fin 1))
        (Math_abs (ilPercentage (Fin 1) (Fin 1) (Fin 1) (Fin 1) (Fin 4)))
   \<and> num_lt (ilPercentage (Fin 1) (Fin 1) (Fin 1) (Fin 1) (Fin 4)) (Fin (- 10))
   \<and> recommendation (calculateImpermanentLoss_src (Fin 1) (Fin 1) (Fin 1) (Fin 1) (Fin 4) (Fin 0)
        (Fin 1)) = ''Consider exiting - IL exceeds fee earnings''
   \<and> recommendation (calculateImpermanentLoss_index (Fin 1) (Fin 1) (Fin 1) (Fin 1) (Fin 4)
        (Fin 0) (Fin 1)) = ''Consider exiting - IL exceeds fee earnings''"
  using recommendation_first_match [of "Fin 1" "Fin 1" "Fin 1" "Fin 1" "Fin 4" "Fin 0" "Fin 1"]
  by (simp add: ilPercentage_def ilUsd_def currentValue_def hodlValue_def newAmount0_def
      newAmount1_def kProduct_def feeApr_def annualFees_def initialValue_def num_sub_def
      classify_def classify_short_def rule_table_def)

section \<open>C7: the two variants\<close>

text \<open>
  C7 as stated: the two variants return equal results for every input. With both amounts
  23360, both prices 1, an unchanged price, fees of 1/4 and one day, they differ in
  \<open>fee_apr\<close>, in \<open>net_apr\<close> and in the label.
\<close>

theorem variants_differ_counterexample:
  "calculateImpermanentLoss_index (Fin 1) (Fin 1) (Fin 1) (Fin 23360) (Fin 23360) (Fin (1 / 4))
       (Fin 1) =
     \<lparr> il_percentage = Fin 0, il_usd = Fin 0, initial_value_usd = Fin 46720,
       current_value_usd = Fin (186881 / 4), hodl_value_usd = Fin 46720,
       fee_apr = Fin (25 / 128), net_apr = Fin (25 / 128),
       recommendation = ''Monitor position'' \<rparr>
   \<and> calculateImpermanentLoss_src (Fin 1) (Fin 1) (Fin 1) (Fin 23360) (Fin 23360) (Fin (1 / 4))
       (Fin 1) =
     \<lparr> il_percentage = Fin 0, il_usd = Fin 0, initial_value_usd = Fin 46720,
       current_value_usd = Fin (186881 / 4), hodl_value_usd = Fin 46720,
       fee_apr = Fin (1 / 5), net_apr = Fin (1 / 5),
       recommendation = ''Profitable position - fees covering IL'' \<rparr>
   \<and> calculateImpermanentLoss_index (Fin 1) (Fin 1) (Fin 1) (Fin 23360) (Fin 23360) (Fin (1 / 4))
       (Fin 1) \<noteq>
     calculateImpermanentLoss_src (Fin 1) (Fin 1) (Fin 1) (Fin 23360) (Fin 23360) (Fin (1 / 4))
       (Fin 1)"
  by (simp add: calculateImpermanentLoss_index_def calculateImpermanentLoss_src_def Let_def
      num_sub_def num_gt_def round2_def)

text \<open>
  C7, amended: for every input the result of the variant of \<open>src/src/index.ts\<close> is the
  result of the variant of \<open>src/index.ts\<close> with each numeric field passed through
  \<open>Number(_.toFixed(2))\<close>, and with the default label replaced by the label of rule 3 or of
  rule 4 where one of them matches the unrounded values.
\<close>

theorem variants_related:
  "calculateImpermanentLoss_src r p0 p1 a0 a1 f d =
    (let R = calculateImpermanentLoss_index r p0 p1 a0 a1 f d in
      \<lparr> il_percentage = toFixed2 (il_percentage R),
        il_usd = toFixed2 (il_usd R),
        initial_value_usd = toFixed2 (initial_value_usd R),
        current_value_usd = toFixed2 (current_value_usd R),
        hodl_value_usd = toFixed2 (hodl_value_usd R),
        fee_apr = toFixed2 (fee_apr R),
        net_apr = toFixed2 (net_apr R),
        recommendation =
          (if recommendation R \<noteq> ''Monitor position'' then recommendation R
           else if num_gt (net_apr R) (Fin 0) then ''Profitable position - fees covering IL''
           else if num_lt (il_percentage R) (Fin (- 10))
           then ''High IL detected - evaluate exit strategy''
           else ''Monitor position'') \<rparr>)"
  by (simp add: index_result src_result Let_def classify_def classify_short_def rule_table_def)

section \<open>C8: the fee APR\<close>





section \<open>C9: rounding at the boundary\<close>

lemma round2_hundredths: "\<exists>n::int. round2 x = real_of_int n / 100"
proof (cases "x < 0")
  case True
  then have "round2 x = real_of_int (- \<lfloor>100 * (- x) + 1 / 2\<rfloor>) / 100"
    by (simp add: round2_def)
  then show ?thesis ..
next
  case False
  then have "round2 x = real_of_int \<lfloor>100 * x + 1 / 2\<rfloor> / 100"
    by (simp add: round2_def)
  then show ?thesis ..
qed

lemma floor_half_near:
  fixes y :: real
  shows "\<bar>real_of_int \<lfloor>y + 1 / 2\<rfloor> - y\<bar> \<le> 1 / 2"
  by linarith

lemma round2_near: "\<bar>round2 x - x\<bar> \<le> 1 / 200"
proof (cases "x < 0")
  case True
  have "\<bar>real_of_int \<lfloor>100 * (- x) + 1 / 2\<rfloor> - 100 * (- x)\<bar> \<le> 1 / 2"
    by (rule floor_half_near)
  then show ?thesis
    using True by (simp add: round2_def abs_if split: if_splits)
next
  case False
  have "\<bar>real_of_int \<lfloor>100 * x + 1 / 2\<rfloor> - 100 * x\<bar> \<le> 1 / 2"
    by (rule floor_half_near)
  then show ?thesis
    using False by (simp add: round2_def abs_if split: if_splits)
qed

text \<open>
  C9 as stated: every numeric field of the response is the computed value rounded to two
  decimals. The variant of \<open>src/index.ts\<close> returns the computed values as they are: with
  both amounts 1 and both prices 1/1024 its \<open>hodl_value_usd\<close> is 1/512, whose rounding is 0.
\<close>

theorem unrounded_index_counterexample:
  "hodl_value_usd (calculateImpermanentLoss_index (Fin 1) (Fin (1 / 1024)) (Fin (1 / 1024))
       (Fin 1) (Fin 1) (Fin 0) (Fin 1)) = Fin (1 / 512)
   \<and> toFixed2 (hodlValue (Fin 1) (Fin (1 / 1024)) (Fin (1 / 1024)) (Fin 1) (Fin 1)) = Fin 0
   \<and> hodl_value_usd (calculateImpermanentLoss_index (Fin 1) (Fin (1 / 1024)) (Fin (1 / 1024))
       (Fin 1) (Fin 1) (Fin 0) (Fin 1)) \<noteq>
      toFixed2 (hodlValue (Fin 1) (Fin (1 / 1024)) (Fin (1 / 1024)) (Fin 1) (Fin 1))"
  by (simp add: calculateImpermanentLoss_index_def Let_def hodlValue_def round2_def)

text \<open>
  C9, amended: for every input, each numeric field returned by the variant of
  \<open>src/src/index.ts\<close> is \<open>Number(_.toFixed(2))\<close> of the corresponding local, and every local
  is computed from unrounded locals: the percentage from the unrounded \<open>ilUsd\<close> and
  \<open>hodlValue\<close>, the net APR from the unrounded \<open>feeApr\<close> and \<open>ilPercentage\<close>. On a finite
  value below \<open>10^21\<close> in magnitude the rounding gives a whole number of hundredths at a
  distance of at most 0.005. The variant of \<open>src/index.ts\<close> returns the locals unrounded.
\<close>

theorem rounding_at_boundary:
  "il_percentage (calculateImpermanentLoss_src r p0 p1 a0 a1 f d) =
      toFixed2 (num_mul (num_div (ilUsd r p0 p1 a0 a1) (hodlValue r p0 p1 a0 a1)) (Fin 100))
   \<and> il_usd (calculateImpermanentLoss_src r p0 p1 a0 a1 f d) =
      toFixed2 (num_sub (currentValue r p0 p1 a0 a1) (hodlValue r p0 p1 a0 a1))
   \<and> initial_value_usd (calculateImpermanentLoss_src r p0 p1 a0 a1 f d) =
      toFixed2 (initialValue p0 p1 a0 a1)
   \<and> current_value_usd (calculateImpermanentLoss_src r p0 p1 a0 a1 f d) =
      toFixed2 (num_add (currentValue r p0 p1 a0 a1) f)
   \<and> hodl_value_usd (calculateImpermanentLoss_src r p0 p1 a0 a1 f d) =
      toFixed2 (hodlValue r p0 p1 a0 a1)
   \<and> fee_apr (calculateImpermanentLoss_src r p0 p1 a0 a1 f d) =
      toFixed2 (num_mul (num_div (annualFees f d) (initialValue p0 p1 a0 a1)) (Fin 100))
   \<and> net_apr (calculateImpermanentLoss_src r p0 p1 a0 a1 f d) =
      toFixed2 (num_add (feeApr p0 p1 a0 a1 f d)
                  (num_mul (num_div (ilPercentage r p0 p1 a0 a1) d) (Fin 365)))
   \<and> toFixed2 (Fin x) = (if 10 ^ 21 \<le> \<bar>x\<bar> then Fin x else Fin (round2 x))
   \<and> (\<exists>n::int. round2 x = real_of_int n / 100)
   \<and> \<bar>round2 x - x\<bar> \<le> 1 / 200
   \<and> il_percentage (calculateImpermanentLoss_index r p0 p1 a0 a1 f d) = ilPercentage r p0 p1 a0 a1
   \<and> il_usd (calculateImpermanentLoss_index r p0 p1 a0 a1 f d) = ilUsd r p0 p1 a0 a1
   \<and> initial_value_usd (calculateImpermanentLoss_index r p0 p1 a0 a1 f d) =
      initialValue p0 p1 a0 a1
   \<and> current_value_usd (calculateImpermanentLoss_index r p0 p1 a0 a1 f d) =
      num_add (currentValue r p0 p1 a0 a1) f
   \<and> hodl_value_usd (calculateImpermanentLoss_index r p0 p1 a0 a1 f d) =
      hodlValue r p0 p1 a0 a1
   \<and> fee_apr (calculateImpermanentLoss_index r p0 p1 a0 a1 f d) = feeApr p0 p1 a0 a1 f d
   \<and> net_apr (calculateImpermanentLoss_index r p0 p1 a0 a1 f d) = netApr r p0 p1 a0 a1 f d"
  using round2_hundredths [of x] round2_near [of x]
  by (simp add: index_result src_result ilPercentage_def ilUsd_def feeApr_def netApr_def)

section \<open>C10: consistency of the returned values\<close>




end
